theory Spec2Isabelle
  imports Main "HOL-Library.Word"
begin

section \<open>The user service of Coffeedoor-backend-express\<close>

text \<open>
  The development embeds \<^verbatim>\<open>UserService\<close> (the class of the second part of
  \<^verbatim>\<open>src/src/models/UserModel.js\<close>), the schema of the first part and
  \<^verbatim>\<open>ApiError\<close> of the third part. Every method is a function from the
  database to a result and the database after the call; a thrown error is \<open>Inl\<close>.
  What a method draws from its environment (the clock, the random bytes, the salt, the
  identifier of a new document, the mail transport) is an argument of the function.
\<close>

subsection \<open>JavaScript values of a field\<close>

text \<open>
  A field of a document or of a request body holds a value, is \<^verbatim>\<open>null\<close>, or is
  absent (\<^verbatim>\<open>undefined\<close>).
\<close>

datatype 'a js = Undefined | Null | Val 'a

text \<open>Truthiness of a string field, as \<^verbatim>\<open>if (user.passwordHash)\<close> tests it.\<close>

fun truthy :: "string js \<Rightarrow> bool" where
  "truthy (Val s) = (s \<noteq> [])"
| "truthy Null = False"
| "truthy Undefined = False"

text \<open>A field inside a template literal, \<^verbatim>\<open>`${user.userName}`\<close>.\<close>

fun template :: "string js \<Rightarrow> string" where
  "template (Val s) = s"
| "template Null = ''null''"
| "template Undefined = ''undefined''"

subsection \<open>ApiError\<close>

text \<open>
  An error is an \<^verbatim>\<open>ApiError\<close> with its status and message, or a plain
  \<^verbatim>\<open>Error\<close> with its message, as a library throws it.
\<close>

datatype error = ApiError nat string | Error string

definition badRequest :: "string \<Rightarrow> error" where
  "badRequest message = ApiError 400 message"

definition forbidden :: "string \<Rightarrow> error" where
  "forbidden message = ApiError 403 message"

definition notFound :: "string \<Rightarrow> error" where
  "notFound message = ApiError 404 message"

definition invalidValue :: "string \<Rightarrow> error" where
  "invalidValue message = ApiError 422 message"

definition internalError :: "string \<Rightarrow> error" where
  "internalError message = ApiError 500 message"

subsection \<open>Documents\<close>

text \<open>
  A user document has the paths that \<^verbatim>\<open>userSchema\<close> declares, from
  \<^verbatim>\<open>userName\<close> to \<^verbatim>\<open>avatarURL\<close>. A document of the collection can
  carry more than the schema declares, and the service names five such paths:
  \<^verbatim>\<open>reset.token\<close> and \<^verbatim>\<open>reset.expire\<close> (in the update of
  \<^verbatim>\<open>resetPassword\<close> and in the filter of \<^verbatim>\<open>setNewPassword\<close>), and
  \<^verbatim>\<open>resetPassword.token\<close>, \<^verbatim>\<open>resetPassword.expire\<close>,
  \<^verbatim>\<open>resetPassword.modified\<close> (in the update of \<^verbatim>\<open>setNewPassword\<close>).
  Times are milliseconds, as \<^verbatim>\<open>Date.now()\<close> gives them. The bookkeeping
  of \<^verbatim>\<open>timestamps: true\<close> is the store's and is not part of the document here.
\<close>

record user =
  u_id :: nat
  userName :: "string js"
  phone :: "string js"
  address :: "string js"
  email :: "string js"
  role :: "string js"
  passwordHash :: "string js"
  avatarURL :: "string js"
  reset_token :: "string js"
  reset_expire :: "int js"
  resetPassword_token :: "string js"
  resetPassword_expire :: "int js"
  resetPassword_modified :: "int js"

text \<open>
  Modelled from the spec: \<^verbatim>\<open>OrderModel\<close> (\<^verbatim>\<open>../models/OrderModel.js\<close>)
  is missing from the source. The spec's Order Store holds orders that reference an
  account id.
\<close>

record order =
  o_id :: nat
  userId :: nat

record db =
  users :: "user list"
  orders :: "order list"

subsection \<open>The document store\<close>

text \<open>
  Modelled from the spec: the store behind \<^verbatim>\<open>UserModel\<close> and
  \<^verbatim>\<open>OrderModel\<close> is the database library, missing from the source. The spec's
  Account Store gives point lookups, create, an atomic conditional update (match a
  predicate, apply a mutation, return the post-update record or a not-matched signal) and
  delete. A collection is the list of its documents in the order of insertion; a lookup
  returns the first match.
\<close>

text \<open>
  Modelled from the spec: an equality condition of a point lookup. A condition on a value
  matches the field holding that value. The spec does not say what a lookup by a value
  that is null or absent finds; the model takes the reading of the database, where such a
  condition matches a field that is null or absent.
\<close>

fun eq_match :: "'a js \<Rightarrow> 'a js \<Rightarrow> bool" where
  "eq_match (Val x) f = (f = Val x)"
| "eq_match Null f = (f = Null \<or> f = Undefined)"
| "eq_match Undefined f = (f = Null \<or> f = Undefined)"

text \<open>Modelled from the spec: the condition \<^verbatim>\<open>{ $gt: t }\<close> of a filter.\<close>

fun gt_match :: "int \<Rightarrow> int js \<Rightarrow> bool" where
  "gt_match t (Val e) = (t < e)"
| "gt_match t Null = False"
| "gt_match t Undefined = False"

text \<open>Modelled from the spec: \<^verbatim>\<open>Model.findOne(filter)\<close>.\<close>

definition findOne :: "('d \<Rightarrow> bool) \<Rightarrow> 'd list \<Rightarrow> 'd option" where
  "findOne P ds = find P ds"

text \<open>
  Modelled from the spec: \<^verbatim>\<open>Model.findOneAndUpdate(filter, update,
  { returnDocument: 'after' })\<close>, the atomic conditional update: the first match is
  replaced by its update and returned, no match returns \<^verbatim>\<open>null\<close> and changes
  nothing.
\<close>

fun findOneAndUpdate :: "('d \<Rightarrow> bool) \<Rightarrow> ('d \<Rightarrow> 'd) \<Rightarrow> 'd list \<Rightarrow> 'd option \<times> 'd list" where
  "findOneAndUpdate P f [] = (None, [])"
| "findOneAndUpdate P f (d # ds) =
     (if P d then (Some (f d), f d # ds)
      else (case findOneAndUpdate P f ds of (r, ds') \<Rightarrow> (r, d # ds')))"

subsection \<open>Updates\<close>

text \<open>
  An update document is the list of its assignments, each a path with the value to store
  there.
\<close>

datatype assignment =
  Set_userName "string js"
| Set_email "string js"
| Set_address "string js"
| Set_passwordHash "string js"
| Set_reset_token "string js"
| Set_reset_expire "int js"
| Set_resetPassword_token "string js"
| Set_resetPassword_expire "int js"
| Set_resetPassword_modified "int js"

text \<open>
  Whether \<^verbatim>\<open>userSchema\<close> declares the path of an assignment. The schema has
  neither a path \<^verbatim>\<open>reset\<close> nor a path \<^verbatim>\<open>resetPassword\<close>.
\<close>

fun declared :: "assignment \<Rightarrow> bool" where
  "declared (Set_userName v) = True"
| "declared (Set_email v) = True"
| "declared (Set_address v) = True"
| "declared (Set_passwordHash v) = True"
| "declared (Set_reset_token v) = False"
| "declared (Set_reset_expire v) = False"
| "declared (Set_resetPassword_token v) = False"
| "declared (Set_resetPassword_expire v) = False"
| "declared (Set_resetPassword_modified v) = False"

text \<open>Whether an assignment has a value: null is one, \<^verbatim>\<open>undefined\<close> is none.\<close>

fun given :: "assignment \<Rightarrow> bool" where
  "given (Set_userName v) = (v \<noteq> Undefined)"
| "given (Set_email v) = (v \<noteq> Undefined)"
| "given (Set_address v) = (v \<noteq> Undefined)"
| "given (Set_passwordHash v) = (v \<noteq> Undefined)"
| "given (Set_reset_token v) = (v \<noteq> Undefined)"
| "given (Set_reset_expire v) = (v \<noteq> Undefined)"
| "given (Set_resetPassword_token v) = (v \<noteq> Undefined)"
| "given (Set_resetPassword_expire v) = (v \<noteq> Undefined)"
| "given (Set_resetPassword_modified v) = (v \<noteq> Undefined)"

text \<open>Writing one path of a document.\<close>

fun assign :: "assignment \<Rightarrow> user \<Rightarrow> user" where
  "assign (Set_userName v) u = u\<lparr>userName := v\<rparr>"
| "assign (Set_email v) u = u\<lparr>email := v\<rparr>"
| "assign (Set_address v) u = u\<lparr>address := v\<rparr>"
| "assign (Set_passwordHash v) u = u\<lparr>passwordHash := v\<rparr>"
| "assign (Set_reset_token v) u = u\<lparr>reset_token := v\<rparr>"
| "assign (Set_reset_expire v) u = u\<lparr>reset_expire := v\<rparr>"
| "assign (Set_resetPassword_token v) u = u\<lparr>resetPassword_token := v\<rparr>"
| "assign (Set_resetPassword_expire v) u = u\<lparr>resetPassword_expire := v\<rparr>"
| "assign (Set_resetPassword_modified v) u = u\<lparr>resetPassword_modified := v\<rparr>"

text \<open>
  The update that the store applies to a document. The schema is strict (its options set
  \<^verbatim>\<open>timestamps\<close>, \<^verbatim>\<open>versionKey\<close> and \<^verbatim>\<open>collection\<close> only), so
  the database library drops an assignment to a path that the schema does not declare;
  it also drops an assignment without a value. The assignments that are left are written
  in their order.
\<close>

definition apply_update :: "assignment list \<Rightarrow> user \<Rightarrow> user" where
  "apply_update as u = fold assign (filter (\<lambda>a. declared a \<and> given a) as) u"

subsection \<open>Hashing\<close>

text \<open>
  The hashing library is missing from the source: \<open>bcrypt_hash\<close> is
  \<^verbatim>\<open>bcrypt.hash(password, salt)\<close> and \<open>bcrypt_check\<close> decides whether a
  password matches a hash that is there. \<open>jwt_sign\<close> is \<^verbatim>\<open>jwt.sign\<close> with
  the secret key and the validity of two days.
\<close>

record env =
  bcrypt_hash :: "string \<Rightarrow> string \<Rightarrow> string"
  bcrypt_check :: "string \<Rightarrow> string \<Rightarrow> bool"
  jwt_sign :: "nat \<Rightarrow> string"

text \<open>
  \<^verbatim>\<open>createPasswordHash\<close>; the argument \<open>salt\<close> is the salt that
  \<^verbatim>\<open>bcrypt.genSalt(5)\<close> draws.
\<close>

definition createPasswordHash :: "env \<Rightarrow> string \<Rightarrow> string \<Rightarrow> string" where
  "createPasswordHash E salt password = bcrypt_hash E password salt"

text \<open>
  \<^verbatim>\<open>bcrypt.compare(password, hash)\<close> of the hashing library. Given a hash that is
  null or absent it does not answer: it rejects with a plain \<^verbatim>\<open>Error\<close>. An
  empty hash matches no password. (The \<^verbatim>\<open>verify\<close> of the spec would answer false
  on a missing hash; the library does not, and the service calls the library.)
\<close>

fun bcrypt_compare :: "env \<Rightarrow> string \<Rightarrow> string js \<Rightarrow> error + bool" where
  "bcrypt_compare E password (Val h) = Inr (h \<noteq> [] \<and> bcrypt_check E password h)"
| "bcrypt_compare E password Null = Inl (Error ''data and hash arguments required'')"
| "bcrypt_compare E password Undefined = Inl (Error ''data and hash arguments required'')"

subsection \<open>The store, continued\<close>

text \<open>
  Modelled from the spec: \<^verbatim>\<open>findUserById\<close> (\<^verbatim>\<open>../utils/findUserById.js\<close>)
  is missing from the source. The spec's lookups by id fail with \<^verbatim>\<open>NotFound\<close>,
  "referenced account does not exist", when no record matches.
\<close>

definition findUserById :: "nat \<Rightarrow> db \<Rightarrow> error + user" where
  "findUserById i d =
     (case findOne (\<lambda>u. u_id u = i) (users d) of
        None \<Rightarrow> Inl (notFound ''referenced account does not exist'')
      | Some user \<Rightarrow> Inr user)"

text \<open>
  Modelled from the spec: the document that \<^verbatim>\<open>UserModel.create\<close> builds from the
  given fields: the role defaults to \<^verbatim>\<open>customer\<close>, a path that is not given is
  absent. \<open>oid\<close> is the identifier the store assigns.
\<close>

definition new_user :: "nat \<Rightarrow> string js \<Rightarrow> string js \<Rightarrow> string js \<Rightarrow> string js \<Rightarrow> user" where
  "new_user oid userName' phone' address' passwordHash' =
     \<lparr>u_id = oid, userName = userName', phone = phone', address = address',
      email = Undefined, role = Val ''customer'', passwordHash = passwordHash',
      avatarURL = Undefined, reset_token = Undefined, reset_expire = Undefined,
      resetPassword_token = Undefined, resetPassword_expire = Undefined,
      resetPassword_modified = Undefined\<rparr>"

text \<open>
  Modelled from the spec: the unique constraint of the Account Store on a phone that is
  not null, and the uniqueness of the identifier.
\<close>

fun phone_taken :: "string js \<Rightarrow> user \<Rightarrow> bool" where
  "phone_taken (Val p) u = (phone u = Val p)"
| "phone_taken Null u = False"
| "phone_taken Undefined u = False"

text \<open>
  Modelled from the spec: \<^verbatim>\<open>UserModel.create\<close>. A write that fails gives no
  document (the service then throws \<^verbatim>\<open>internalError\<close>); a write that succeeds
  appends the document.
\<close>

definition create :: "user \<Rightarrow> user list \<Rightarrow> user option \<times> user list" where
  "create doc ds =
     (if list_ex (\<lambda>u. u_id u = u_id doc \<or> phone_taken (phone doc) u) ds then (None, ds)
      else (Some doc, ds @ [doc]))"

text \<open>
  Modelled from the spec: \<^verbatim>\<open>Model.deleteMany(filter)\<close> and
  \<^verbatim>\<open>Model.deleteOne(filter)\<close>; the outcome is the number of documents deleted.
\<close>

definition deleteMany :: "('d \<Rightarrow> bool) \<Rightarrow> 'd list \<Rightarrow> nat \<times> 'd list" where
  "deleteMany P ds = (length (filter P ds), filter (\<lambda>x. \<not> P x) ds)"

fun deleteOne :: "('d \<Rightarrow> bool) \<Rightarrow> 'd list \<Rightarrow> nat \<times> 'd list" where
  "deleteOne P [] = (0, [])"
| "deleteOne P (x # xs) =
     (if P x then (1, xs) else (case deleteOne P xs of (n, ys) \<Rightarrow> (n, x # ys)))"

subsection \<open>The methods of UserService\<close>

text \<open>
  The fields that a method destructures from its argument are the arguments of the
  function; a primed name is the method's variable of that name.
\<close>

record status_message =
  ok :: bool
  message :: string

subsubsection \<open>rawRegister\<close>

definition rawRegister ::
  "nat \<Rightarrow> string js \<Rightarrow> string js \<Rightarrow> string js \<Rightarrow> db \<Rightarrow> (error + user) \<times> db" where
  "rawRegister oid phone' userName' address' d =
     (case findOne (\<lambda>u. eq_match phone' (phone u)) (users d) of
        Some user \<Rightarrow> (Inr user, d)
      | None \<Rightarrow>
          (case create (new_user oid userName' phone' address' Undefined) (users d) of
             (None, us) \<Rightarrow> (Inl (internalError ''Server error! Try again''), d)
           | (Some user, us) \<Rightarrow> (Inr user, d\<lparr>users := us\<rparr>)))"

subsubsection \<open>login\<close>

datatype login_result =
  NoPassword user string
| Logged user string string

definition generateToken :: "env \<Rightarrow> nat \<Rightarrow> string" where
  "generateToken E i = jwt_sign E i"

definition login :: "env \<Rightarrow> string js \<Rightarrow> string \<Rightarrow> db \<Rightarrow> error + login_result" where
  "login E phone' password d =
     (case findOne (\<lambda>u. eq_match phone' (phone u)) (users d) of
        None \<Rightarrow> Inl (notFound ''Can't find user'')
      | Some user \<Rightarrow>
          (if truthy (passwordHash user) then
             (case bcrypt_compare E password (passwordHash user) of
                Inl e \<Rightarrow> Inl e
              | Inr isValidPass \<Rightarrow>
                  (if \<not> isValidPass
                   then Inl (badRequest ''Incorrect login or password'')
                   else Inr (Logged user (generateToken E (u_id user))
                          (''User '' @ template (userName user) @ '' successfully logged''))))
           else Inr (NoPassword user
                  ''You don't have password yet. Please, set the new one'')))"

subsubsection \<open>resetPassword\<close>

text \<open>
  \<^verbatim>\<open>crypto.randomBytes(n)\<close> reads \<open>n\<close> bytes of the random source \<open>rnd\<close>;
  \<^verbatim>\<open>buffer.toString('hex')\<close> writes every byte as two lower-case hexadecimal
  digits. A buffer is an object, so the branch \<^verbatim>\<open>if (!buffer)\<close> is never taken.
\<close>

definition randomBytes :: "nat \<Rightarrow> (nat \<Rightarrow> 8 word) \<Rightarrow> 8 word list" where
  "randomBytes n rnd = map rnd [0..<n]"

definition hex_digits :: string where
  "hex_digits = ''0123456789abcdef''"

definition hex_byte :: "8 word \<Rightarrow> string" where
  "hex_byte b = [hex_digits ! (unat b div 16), hex_digits ! (unat b mod 16)]"

definition toString_hex :: "8 word list \<Rightarrow> string" where
  "toString_hex buffer = concat (map hex_byte buffer)"

text \<open>
  Modelled from the spec: \<^verbatim>\<open>mailConfig\<close> (\<^verbatim>\<open>../utils/mailConfig.js\<close>) is
  missing from the source. The spec's Mail Transport accepts the token and the email and
  returns the delivery metadata \<^verbatim>\<open>{response, accepted}\<close> or fails with a transport
  error message. It is the argument \<open>mailConfig\<close> of \<open>resetPassword\<close>; \<open>Inl\<close> carries
  \<^verbatim>\<open>err.message\<close>.
\<close>

record mail_status =
  response :: string
  accepted :: "string list"

record mail_result =
  delivery :: string
  delivery_message :: string

text \<open>An array inside a template literal: its elements joined by commas.\<close>

fun join_comma :: "string list \<Rightarrow> string" where
  "join_comma [] = []"
| "join_comma [x] = x"
| "join_comma (x # y # ys) = x @ '','' @ join_comma (y # ys)"

text \<open>\<^verbatim>\<open>err.message || "Can't send mail"\<close>.\<close>

definition or_default :: "string js \<Rightarrow> string \<Rightarrow> string" where
  "or_default m dflt = (if truthy m then template m else dflt)"

text \<open>The update document of \<^verbatim>\<open>resetPassword\<close>.\<close>

definition issue_update :: "string \<Rightarrow> int \<Rightarrow> assignment list" where
  "issue_update token' now =
     [Set_reset_token (Val token'), Set_reset_expire (Val (now + 3600 * 1000))]"

definition resetPassword ::
  "(nat \<Rightarrow> 8 word) \<Rightarrow> int \<Rightarrow> (string \<Rightarrow> string js \<Rightarrow> string js + mail_status) \<Rightarrow>
   string js \<Rightarrow> db \<Rightarrow> (error + mail_result) \<times> db" where
  "resetPassword rnd now mailConfig email' d =
     (case findOne (\<lambda>u. eq_match email' (email u)) (users d) of
        None \<Rightarrow> (Inl (notFound ''Can't find user with this email''), d)
      | Some user \<Rightarrow>
          (let buffer = randomBytes 16 rnd;
               token' = toString_hex buffer in
           case findOneAndUpdate (\<lambda>u. eq_match email' (email u))
                  (apply_update (issue_update token' now)) (users d) of
             (None, us) \<Rightarrow> (Inl (forbidden ''Modified forbidden''), d)
           | (Some updatedUser, us) \<Rightarrow>
               ((case mailConfig token' email' of
                   Inr st \<Rightarrow>
                     Inr \<lparr>delivery = response st,
                          delivery_message =
                            ''Email successfully sent to '' @ join_comma (accepted st)\<rparr>
                 | Inl err \<Rightarrow> Inl (invalidValue (or_default err ''Can't send mail''))),
                d\<lparr>users := us\<rparr>)))"

subsubsection \<open>setNewPassword\<close>

text \<open>The filter and the update document of \<^verbatim>\<open>setNewPassword\<close>.\<close>

definition reset_filter :: "string js \<Rightarrow> int \<Rightarrow> user \<Rightarrow> bool" where
  "reset_filter token' now u =
     (eq_match token' (reset_token u) \<and> gt_match now (reset_expire u))"

definition reset_update :: "string \<Rightarrow> int \<Rightarrow> assignment list" where
  "reset_update h modified =
     [Set_passwordHash (Val h), Set_resetPassword_token Null, Set_resetPassword_expire Null,
      Set_resetPassword_modified (Val modified)]"

text \<open>
  \<open>now\<close> is the reading of \<^verbatim>\<open>Date.now()\<close> in the filter, \<open>modified\<close> the
  reading in the update.
\<close>

definition setNewPassword ::
  "env \<Rightarrow> string \<Rightarrow> int \<Rightarrow> int \<Rightarrow> string js \<Rightarrow> string \<Rightarrow> db \<Rightarrow>
   (error + status_message) \<times> db" where
  "setNewPassword E salt now modified token' password d =
     (let passwordHash' = createPasswordHash E salt password in
      case findOneAndUpdate (reset_filter token' now)
             (apply_update (reset_update passwordHash' modified)) (users d) of
        (None, us) \<Rightarrow> (Inl (forbidden ''Modified forbidden''), d)
      | (Some updatedUser, us) \<Rightarrow>
          (Inr \<lparr>ok = True, message = ''New password successfully setted''\<rparr>,
           d\<lparr>users := us\<rparr>))"

subsubsection \<open>confirmPassword and updatePassword\<close>

definition confirmPassword :: "env \<Rightarrow> string \<Rightarrow> nat \<Rightarrow> db \<Rightarrow> error + status_message" where
  "confirmPassword E password i d =
     (case findUserById i d of
        Inl e \<Rightarrow> Inl e
      | Inr user \<Rightarrow>
          (case bcrypt_compare E password (passwordHash user) of
             Inl e \<Rightarrow> Inl e
           | Inr isValidPass \<Rightarrow>
               (if \<not> isValidPass
                then Inl (badRequest ''Wrong password!'')
                else Inr \<lparr>ok = True, message = ''Password confirmed''\<rparr>)))"

definition updatePassword ::
  "env \<Rightarrow> string \<Rightarrow> string \<Rightarrow> nat \<Rightarrow> db \<Rightarrow> (error + status_message) \<times> db" where
  "updatePassword E salt password i d =
     (if password = [] then (Inl (badRequest ''No data!''), d)
      else
        (case findUserById i d of
           Inl e \<Rightarrow> (Inl e, d)
         | Inr user \<Rightarrow>
             (case bcrypt_compare E password (passwordHash user) of
                Inl e \<Rightarrow> (Inl e, d)
              | Inr isValidPass \<Rightarrow>
                  (if isValidPass
                   then (Inl (badRequest ''The same password!''), d)
                   else
                     (let passwordHash' = createPasswordHash E salt password in
                      case findOneAndUpdate (\<lambda>u. u_id u = i)
                             (apply_update [Set_passwordHash (Val passwordHash')]) (users d) of
                        (None, us) \<Rightarrow> (Inl (forbidden ''Modified forbidden''), d)
                      | (Some updatedUser, us) \<Rightarrow>
                          (Inr \<lparr>ok = True,
                                message = ''User '' @ template (userName updatedUser)
                                          @ '' successfully updated''\<rparr>,
                           d\<lparr>users := us\<rparr>))))))"

subsubsection \<open>updateProfile\<close>

text \<open>
  The body of the request; \<open>None\<close> is a body that is not there, which
  \<^verbatim>\<open>if (!body)\<close> rejects.
\<close>

record profile_body =
  body_userName :: "string js"
  body_email :: "string js"
  body_address :: "string js"

text \<open>The update document of \<^verbatim>\<open>updateProfile\<close>.\<close>

definition profile_update :: "profile_body \<Rightarrow> assignment list" where
  "profile_update b =
     [Set_userName (body_userName b), Set_email (body_email b), Set_address (body_address b)]"

definition updateProfile ::
  "profile_body option \<Rightarrow> nat \<Rightarrow> db \<Rightarrow> (error + user \<times> string) \<times> db" where
  "updateProfile body i d =
     (case body of
        None \<Rightarrow> (Inl (badRequest ''No data!''), d)
      | Some b \<Rightarrow>
          (case findOneAndUpdate (\<lambda>u. u_id u = i) (apply_update (profile_update b))
                  (users d) of
             (None, us) \<Rightarrow> (Inl (forbidden ''Modified forbidden''), d)
           | (Some updatedUser, us) \<Rightarrow>
               (Inr (updatedUser,
                     ''User '' @ template (userName updatedUser) @ '' successfully updated''),
                d\<lparr>users := us\<rparr>)))"

subsubsection \<open>deleteUser\<close>

text \<open>The result is the pair of \<^verbatim>\<open>orderStatus\<close> and \<^verbatim>\<open>userStatus\<close>.\<close>

definition deleteUser :: "nat \<Rightarrow> db \<Rightarrow> (error + nat \<times> nat) \<times> db" where
  "deleteUser i d =
     (case findUserById i d of
        Inl e \<Rightarrow> (Inl e, d)
      | Inr user \<Rightarrow>
          (case deleteMany (\<lambda>x. userId x = i) (orders d) of
             (orderStatus, os) \<Rightarrow>
               (case deleteOne (\<lambda>u. u_id u = i) (users d) of
                  (userStatus, us) \<Rightarrow>
                    (Inr (orderStatus, userStatus), \<lparr>users = us, orders = os\<rparr>))))"

subsection \<open>A small database\<close>

text \<open>
  A hasher, a random source, a mail transport that answers with the token it was given,
  a database of two accounts and three orders, and a database of one account with an
  email, on which the theorems below are instantiated.
\<close>

definition test_env :: env where
  "test_env = \<lparr>bcrypt_hash = (\<lambda>p s. s @ p), bcrypt_check = (\<lambda>p h. drop 2 h = p),
      jwt_sign = (\<lambda>i. replicate i CHR ''t'')\<rparr>"

definition test_rnd :: "nat \<Rightarrow> 8 word" where
  "test_rnd k = of_nat (17 * k + 3)"

definition test_mail :: "string \<Rightarrow> string js \<Rightarrow> string js + mail_status" where
  "test_mail t e =
     (case e of
        Val a \<Rightarrow> Inr \<lparr>response = ''250 OK '' @ t, accepted = [a]\<rparr>
      | Null \<Rightarrow> Inl Undefined
      | Undefined \<Rightarrow> Inl Undefined)"

definition guest :: user where
  "guest = new_user 1 (Val ''Ann'') (Val ''+1000'') Undefined Undefined"

definition pending :: user where
  "pending = (new_user 2 (Val ''Bob'') (Val ''+2000'') Null (Val ''s1abc''))
     \<lparr>email := Val ''b@c.d'', reset_token := Val ''00ff'', reset_expire := Val 5000\<rparr>"

definition test_db :: db where
  "test_db = \<lparr>users = [guest, pending],
      orders = [\<lparr>o_id = 1, userId = 2\<rparr>, \<lparr>o_id = 2, userId = 1\<rparr>, \<lparr>o_id = 3, userId = 2\<rparr>]\<rparr>"

definition subscriber :: user where
  "subscriber = (new_user 3 (Val ''Cy'') (Val ''+3000'') Undefined (Val ''s1xyz''))
     \<lparr>email := Val ''c@d.e''\<rparr>"

definition mail_db :: db where
  "mail_db = \<lparr>users = [subscriber], orders = []\<rparr>"

definition test_body :: profile_body where
  "test_body = \<lparr>body_userName = Val ''Bo'', body_email = Undefined, body_address = Null\<rparr>"

section \<open>Properties of the store\<close>

lemma findOneAndUpdate_no_match:
  "find P ds = None \<Longrightarrow> findOneAndUpdate P f ds = (None, ds)"
  by (induction ds) (auto split: if_splits)

lemma findOneAndUpdate_split:
  "find P ds = Some x \<Longrightarrow>
   \<exists>xs ys. ds = xs @ x # ys \<and> find P xs = None
     \<and> findOneAndUpdate P f ds = (Some (f x), xs @ f x # ys)"
proof (induction ds)
  case Nil
  then show ?case by simp
next
  case (Cons d ds)
  show ?case
  proof (cases "P d")
    case True
    with Cons.prems have "x = d" by simp
    with True have "d # ds = [] @ x # ds \<and> find P [] = None
      \<and> findOneAndUpdate P f (d # ds) = (Some (f x), [] @ f x # ds)" by simp
    then show ?thesis by blast
  next
    case False
    with Cons.prems have "find P ds = Some x" by simp
    from Cons.IH [OF this] obtain xs ys where
      h: "ds = xs @ x # ys" "find P xs = None"
         "findOneAndUpdate P f ds = (Some (f x), xs @ f x # ys)"
      by blast
    with False have "d # ds = (d # xs) @ x # ys \<and> find P (d # xs) = None
      \<and> findOneAndUpdate P f (d # ds) = (Some (f x), (d # xs) @ f x # ys)" by simp
    then show ?thesis by blast
  qed
qed

lemma find_prefix_None:
  "find P xs = None \<Longrightarrow> find P (xs @ y # ys) = (if P y then Some y else find P ys)"
  by (induction xs) (auto split: if_splits)

lemma eq_match_refl: "eq_match x x"
  by (cases x) auto

lemma find_snoc_new: "find P xs = None \<Longrightarrow> P x \<Longrightarrow> find P (xs @ [x]) = Some x"
  by (induction xs) (auto split: if_splits)

lemma deleteOne_split:
  "find P ds = Some x \<Longrightarrow>
   \<exists>xs ys. ds = xs @ x # ys \<and> find P xs = None \<and> deleteOne P ds = (1, xs @ ys)"
proof (induction ds)
  case Nil
  then show ?case by simp
next
  case (Cons d ds)
  show ?case
  proof (cases "P d")
    case True
    with Cons.prems have "x = d" by simp
    with True have "d # ds = [] @ x # ds \<and> find P [] = None
      \<and> deleteOne P (d # ds) = (1, [] @ ds)" by simp
    then show ?thesis by blast
  next
    case False
    with Cons.prems have "find P ds = Some x" by simp
    from Cons.IH [OF this] obtain xs ys where
      h: "ds = xs @ x # ys" "find P xs = None" "deleteOne P ds = (1, xs @ ys)"
      by blast
    with False have "d # ds = (d # xs) @ x # ys \<and> find P (d # xs) = None
      \<and> deleteOne P (d # ds) = (1, (d # xs) @ ys)" by simp
    then show ?thesis by blast
  qed
qed

lemma find_id_absent: "i \<notin> set (map u_id us) \<Longrightarrow> find (\<lambda>x. u_id x = i) us = None"
  by (induction us) auto

lemma findOneAndUpdate_map:
  "(\<And>x. g (f x) = g x) \<Longrightarrow> map g (snd (findOneAndUpdate P f ds)) = map g ds"
  by (induction ds) (auto split: prod.splits)

lemma hex_digit_mem: "k < 16 \<Longrightarrow> hex_digits ! k \<in> set hex_digits"
  by (rule nth_mem) (simp add: hex_digits_def)

lemma hex_byte_props: "length (hex_byte b) = 2 \<and> set (hex_byte b) \<subseteq> set hex_digits"
proof -
  have "unat b < 256" using unsigned_less [of b] by simp
  then have "unat b div 16 < 16" by simp
  moreover have "unat b mod 16 < 16" by simp
  ultimately show ?thesis
    unfolding hex_byte_def using hex_digit_mem by simp
qed

lemma toString_hex_length: "length (toString_hex bs) = 2 * length bs"
  by (induction bs) (simp_all add: toString_hex_def hex_byte_props)

lemma toString_hex_chars: "set (toString_hex bs) \<subseteq> set hex_digits"
  using hex_byte_props by (auto simp: toString_hex_def)

section \<open>Properties of the service\<close>

subsection \<open>setNewPassword\<close>

text \<open>
  C2: when no account has a stored reset token matching the given one together with an
  expiry strictly after the time of the call, \<open>setNewPassword\<close> fails with the error
  403 "Modified forbidden". The error does not depend on why no account matches, so a
  wrong token and an expired token give the same error.
\<close>

theorem setNewPassword_no_match:
  assumes "\<forall>u\<in>set (users d).
             \<not> (eq_match token' (reset_token u) \<and> gt_match now (reset_expire u))"
  shows "fst (setNewPassword E salt now modified token' password d)
         = Inl (ApiError 403 ''Modified forbidden'')"
proof -
  from assms have "find (reset_filter token' now) (users d) = None"
    by (simp add: find_None_iff reset_filter_def)
  then show ?thesis
    by (simp add: setNewPassword_def findOneAndUpdate_no_match forbidden_def)
qed

text \<open>A wrong token, and the right token at its expiry time.\<close>

theorem setNewPassword_no_match_witness:
  "fst (setNewPassword test_env ''s2'' 1000 1000 (Val ''dead'') ''new'' test_db)
     = Inl (ApiError 403 ''Modified forbidden'')
   \<and> fst (setNewPassword test_env ''s2'' 5000 5000 (Val ''00ff'') ''new'' test_db)
     = Inl (ApiError 403 ''Modified forbidden'')"
  using setNewPassword_no_match [of test_db "Val ''dead''" 1000 test_env "''s2''" 1000 "''new''"]
    setNewPassword_no_match [of test_db "Val ''00ff''" 5000 test_env "''s2''" 5000 "''new''"]
  by (simp add: test_db_def guest_def pending_def new_user_def)

text \<open>
  C10: a call of \<open>setNewPassword\<close> that fails leaves the database as it was: no
  account and no order is modified.
\<close>

theorem setNewPassword_failure_atomic:
  assumes "fst (setNewPassword E salt now modified token' password d) = Inl e"
  shows "snd (setNewPassword E salt now modified token' password d) = d"
  using assms by (auto simp: setNewPassword_def Let_def split: prod.splits option.splits)

theorem setNewPassword_failure_atomic_witness:
  "fst (setNewPassword test_env ''s2'' 1000 1000 (Val ''dead'') ''new'' test_db)
     = Inl (ApiError 403 ''Modified forbidden'')
   \<and> snd (setNewPassword test_env ''s2'' 1000 1000 (Val ''dead'') ''new'' test_db) = test_db"
  using setNewPassword_failure_atomic [of test_env "''s2''" 1000 1000 "Val ''dead''" "''new''"
      test_db "ApiError 403 ''Modified forbidden''"]
  by (simp add: setNewPassword_def reset_filter_def forbidden_def test_db_def guest_def
      pending_def new_user_def)

lemma apply_reset_update_keeps:
  "reset_token (apply_update (reset_update h modified) u) = reset_token u
   \<and> reset_expire (apply_update (reset_update h modified) u) = reset_expire u"
  by (simp add: apply_update_def reset_update_def)

text \<open>
  A successful call writes the hash only: the paths \<^verbatim>\<open>reset.token\<close> and
  \<^verbatim>\<open>reset.expire\<close>, which the filter reads, are the same after the call as before
  it, on every account.
\<close>

lemma setNewPassword_keeps_reset:
  "map reset_token (users (snd (setNewPassword E salt now modified token' password d)))
     = map reset_token (users d)
   \<and> map reset_expire (users (snd (setNewPassword E salt now modified token' password d)))
     = map reset_expire (users d)"
proof -
  let ?f = "apply_update (reset_update (createPasswordHash E salt password) modified)"
  let ?r = "findOneAndUpdate (reset_filter token' now) ?f (users d)"
  have "map reset_token (snd ?r) = map reset_token (users d)"
    by (rule findOneAndUpdate_map) (simp add: apply_reset_update_keeps)
  moreover have "map reset_expire (snd ?r) = map reset_expire (users d)"
    by (rule findOneAndUpdate_map) (simp add: apply_reset_update_keeps)
  ultimately show ?thesis
    by (cases ?r) (auto simp: setNewPassword_def Let_def split: option.splits)
qed

text \<open>
  C1 (not met by the code): a reset token is to be accepted once. On the database below
  the account of Bob has the token \<^verbatim>\<open>00ff\<close> with the expiry 5000. The call at the
  time 1000 succeeds, stores the new hash and leaves \<^verbatim>\<open>reset.token\<close> in place (the
  update names \<^verbatim>\<open>resetPassword.token\<close>, not \<^verbatim>\<open>reset.token\<close>), and the second
  call with the same token at the time 2000 succeeds again, where the claim has it fail
  with 403.
\<close>

theorem setNewPassword_token_reused:
  "fst (setNewPassword test_env ''s2'' 1000 1001 (Val ''00ff'') ''new'' test_db)
     = Inr \<lparr>ok = True, message = ''New password successfully setted''\<rparr>
   \<and> findUserById 2 (snd (setNewPassword test_env ''s2'' 1000 1001 (Val ''00ff'') ''new'' test_db))
     = Inr (pending\<lparr>passwordHash := Val ''s2new''\<rparr>)
   \<and> reset_token (pending\<lparr>passwordHash := Val ''s2new''\<rparr>) = Val ''00ff''
   \<and> fst (setNewPassword test_env ''s3'' 2000 2001 (Val ''00ff'') ''other''
        (snd (setNewPassword test_env ''s2'' 1000 1001 (Val ''00ff'') ''new'' test_db)))
     = Inr \<lparr>ok = True, message = ''New password successfully setted''\<rparr>"
  by (simp add: setNewPassword_def reset_filter_def reset_update_def apply_update_def
      createPasswordHash_def findUserById_def findOne_def test_env_def test_db_def guest_def
      pending_def new_user_def)

subsection \<open>confirmPassword\<close>

text \<open>
  On an account whose hash is null or absent, \<open>confirmPassword\<close> hands the hash to
  \<^verbatim>\<open>bcrypt.compare\<close> unguarded and ends with the library's plain error; on an account
  whose hash is the empty string it fails with the error 400 "Wrong password!".
\<close>

lemma confirmPassword_missing_hash:
  assumes "findUserById i d = Inr u" and "passwordHash u = Undefined \<or> passwordHash u = Null"
  shows "confirmPassword E password i d = Inl (Error ''data and hash arguments required'')"
  using assms by (auto simp: confirmPassword_def)

lemma confirmPassword_empty_hash:
  assumes "findUserById i d = Inr u" and "passwordHash u = Val []"
  shows "confirmPassword E password i d = Inl (ApiError 400 ''Wrong password!'')"
  using assms by (simp add: confirmPassword_def badRequest_def)

text \<open>
  C3 (not met by the code): an account without a stored hash is to be treated as a
  wrong password, error 400. The account of Ann has no hash: \<open>confirmPassword\<close> on it
  ends with the plain error of \<^verbatim>\<open>bcrypt.compare\<close>, which is no
  \<^verbatim>\<open>ApiError\<close>, where \<open>login\<close> on the same account tests the hash first and
  returns its result.
\<close>

theorem confirmPassword_no_hash_throws:
  "findUserById 1 test_db = Inr guest
   \<and> passwordHash guest = Undefined
   \<and> confirmPassword test_env ''abc'' 1 test_db
       = Inl (Error ''data and hash arguments required'')
   \<and> login test_env (Val ''+1000'') ''abc'' test_db
       = Inr (NoPassword guest ''You don't have password yet. Please, set the new one'')"
  by (simp add: confirmPassword_def login_def findUserById_def findOne_def test_db_def
      guest_def new_user_def)

subsection \<open>rawRegister\<close>

text \<open>
  C4: when the lookup by phone finds an account, \<open>rawRegister\<close> returns it and leaves
  the database as it was; and when a call of \<open>rawRegister\<close> returns an account, a second
  call with the same phone (whatever the other fields and the next identifier) returns
  the same account and changes nothing.
\<close>

theorem rawRegister_idempotent:
  "(findOne (\<lambda>x. eq_match phone' (phone x)) (users d) = Some u \<longrightarrow>
      rawRegister oid phone' n a d = (Inr u, d))
   \<and> (rawRegister oid phone' n a d = (Inr u1, d1) \<longrightarrow>
      rawRegister oid2 phone' n2 a2 d1 = (Inr u1, d1))"
proof (intro conjI impI)
  assume "findOne (\<lambda>x. eq_match phone' (phone x)) (users d) = Some u"
  then show "rawRegister oid phone' n a d = (Inr u, d)"
    by (simp add: rawRegister_def)
next
  assume r: "rawRegister oid phone' n a d = (Inr u1, d1)"
  show "rawRegister oid2 phone' n2 a2 d1 = (Inr u1, d1)"
  proof (cases "findOne (\<lambda>x. eq_match phone' (phone x)) (users d)")
    case (Some v)
    with r have "u1 = v" "d1 = d" by (simp_all add: rawRegister_def)
    with Some show ?thesis by (simp add: rawRegister_def)
  next
    case None
    let ?doc = "new_user oid n phone' a Undefined"
    from r None have c: "u1 = ?doc" "d1 = d\<lparr>users := users d @ [?doc]\<rparr>"
      by (auto simp: rawRegister_def create_def split: if_splits)
    have "phone ?doc = phone'" by (simp add: new_user_def)
    then have "eq_match phone' (phone ?doc)" by (simp add: eq_match_refl)
    with None have "findOne (\<lambda>x. eq_match phone' (phone x)) (users d @ [?doc]) = Some ?doc"
      by (simp add: findOne_def find_snoc_new)
    with c show ?thesis by (simp add: rawRegister_def)
  qed
qed

theorem rawRegister_idempotent_witness:
  "rawRegister 7 (Val ''+1000'') (Val ''Zed'') Null test_db = (Inr guest, test_db)
   \<and> fst (rawRegister 7 (Val ''+3000'') (Val ''Cy'') Undefined test_db)
      = Inr (new_user 7 (Val ''Cy'') (Val ''+3000'') Undefined Undefined)
   \<and> fst (rawRegister 8 (Val ''+3000'') (Val ''Di'') Null
        (snd (rawRegister 7 (Val ''+3000'') (Val ''Cy'') Undefined test_db)))
      = Inr (new_user 7 (Val ''Cy'') (Val ''+3000'') Undefined Undefined)"
  using rawRegister_idempotent [of "Val ''+1000''" test_db guest 7 "Val ''Zed''" Null
      guest test_db 7 "Val ''Zed''" Null]
    rawRegister_idempotent [of "Val ''+3000''" test_db guest 7 "Val ''Cy''" Undefined
      "new_user 7 (Val ''Cy'') (Val ''+3000'') Undefined Undefined"
      "snd (rawRegister 7 (Val ''+3000'') (Val ''Cy'') Undefined test_db)" 8 "Val ''Di''" Null]
  by (simp add: rawRegister_def findOne_def create_def test_db_def guest_def pending_def
      new_user_def)

subsection \<open>login\<close>

lemma bcrypt_compare_truthy:
  "truthy h \<Longrightarrow> bcrypt_compare E password h = Inr (bcrypt_check E password (template h))"
  by (cases h) auto

text \<open>
  C5: when the account found by phone has no hash (absent, null or empty), \<open>login\<close>
  returns the account with the message that no password is set; it fails with the
  status 404 exactly when no account matches the phone, and with the status 400 exactly
  when the account found has a hash and the comparison with it is false.
\<close>

theorem login_cases:
  "(findOne (\<lambda>x. eq_match phone' (phone x)) (users d) = Some u \<and> \<not> truthy (passwordHash u) \<longrightarrow>
      login E phone' password d
        = Inr (NoPassword u ''You don't have password yet. Please, set the new one''))
   \<and> ((\<exists>m. login E phone' password d = Inl (ApiError 404 m))
        \<longleftrightarrow> findOne (\<lambda>x. eq_match phone' (phone x)) (users d) = None)
   \<and> ((\<exists>m. login E phone' password d = Inl (ApiError 400 m))
        \<longleftrightarrow> (\<exists>v. findOne (\<lambda>x. eq_match phone' (phone x)) (users d) = Some v
               \<and> truthy (passwordHash v)
               \<and> bcrypt_compare E password (passwordHash v) = Inr False))"
  by (auto simp: login_def notFound_def badRequest_def bcrypt_compare_truthy
      split: option.splits)

theorem login_cases_witness:
  "findOne (\<lambda>x. eq_match (Val ''+1000'') (phone x)) (users test_db) = Some guest
   \<and> \<not> truthy (passwordHash guest)
   \<and> login test_env (Val ''+1000'') ''abc'' test_db
       = Inr (NoPassword guest ''You don't have password yet. Please, set the new one'')"
  using login_cases [of "Val ''+1000''" test_db guest test_env "''abc''"]
  by (simp add: findOne_def test_db_def guest_def new_user_def)

subsection \<open>updatePassword\<close>

lemma apply_passwordHash:
  "apply_update [Set_passwordHash (Val h)] u = u\<lparr>passwordHash := Val h\<rparr>"
  by (simp add: apply_update_def)

lemma updatePassword_commit:
  assumes "findUserById i d = Inr u" and "password \<noteq> []"
    and "bcrypt_compare E password (passwordHash u) = Inr False"
  shows "\<exists>xs ys. users d = xs @ u # ys \<and> find (\<lambda>x. u_id x = i) xs = None
     \<and> updatePassword E salt password i d
       = (Inr \<lparr>ok = True,
               message = ''User '' @ template (userName u) @ '' successfully updated''\<rparr>,
          d\<lparr>users := xs @ u\<lparr>passwordHash := Val (createPasswordHash E salt password)\<rparr> # ys\<rparr>)"
proof -
  let ?P = "\<lambda>x. u_id x = i"
  let ?f = "apply_update [Set_passwordHash (Val (createPasswordHash E salt password))]"
  from assms(1) have f: "find ?P (users d) = Some u"
    by (simp add: findUserById_def findOne_def split: option.splits)
  from findOneAndUpdate_split [OF f, of ?f] obtain xs ys where
    h: "users d = xs @ u # ys" "find ?P xs = None"
       "findOneAndUpdate ?P ?f (users d) = (Some (?f u), xs @ ?f u # ys)"
    by blast
  from assms h(3) have "updatePassword E salt password i d
      = (Inr \<lparr>ok = True, message = ''User '' @ template (userName u) @ '' successfully updated''\<rparr>,
         d\<lparr>users := xs @ u\<lparr>passwordHash := Val (createPasswordHash E salt password)\<rparr> # ys\<rparr>)"
    by (simp add: updatePassword_def Let_def apply_passwordHash)
  with h(1,2) show ?thesis by blast
qed

text \<open>
  On an account whose hash is null or absent, a new password that is not empty ends
  with the plain error of \<^verbatim>\<open>bcrypt.compare\<close>, before any write.
\<close>

lemma updatePassword_missing_hash:
  assumes "findUserById i d = Inr u" and "passwordHash u = Undefined \<or> passwordHash u = Null"
    and "password \<noteq> []"
  shows "updatePassword E salt password i d
         = (Inl (Error ''data and hash arguments required''), d)"
  using assms by (auto simp: updatePassword_def)

text \<open>
  C8 (as amended): for an existing account with a stored hash, an empty new password
  fails with the error 400 "No data!" and commits nothing; a new password that is not
  empty and compares true with the stored hash fails with the error 400 "The same
  password!" and commits nothing; a new password that is not empty and compares false is
  hashed, the hash is stored as the \<open>passwordHash\<close> of the account, and nothing else
  changes. The comparison with a stored hash always answers.
\<close>

theorem updatePassword_cases:
  assumes "findUserById i d = Inr u" and "passwordHash u = Val h"
  shows "(password = [] \<longrightarrow>
            updatePassword E salt password i d = (Inl (ApiError 400 ''No data!''), d))
     \<and> (password \<noteq> [] \<and> bcrypt_compare E password (Val h) = Inr True \<longrightarrow>
            updatePassword E salt password i d = (Inl (ApiError 400 ''The same password!''), d))
     \<and> (password \<noteq> [] \<and> bcrypt_compare E password (Val h) = Inr False \<longrightarrow>
            (\<exists>xs ys. users d = xs @ u # ys
                \<and> updatePassword E salt password i d
                  = (Inr \<lparr>ok = True,
                          message = ''User '' @ template (userName u) @ '' successfully updated''\<rparr>,
                     d\<lparr>users := xs @ u\<lparr>passwordHash := Val (createPasswordHash E salt password)\<rparr> # ys\<rparr>))
          \<and> findUserById i (snd (updatePassword E salt password i d))
              = Inr (u\<lparr>passwordHash := Val (createPasswordHash E salt password)\<rparr>))
     \<and> (\<exists>b. bcrypt_compare E password (Val h) = Inr b)"
proof -
  have 1: "password = [] \<longrightarrow>
      updatePassword E salt password i d = (Inl (ApiError 400 ''No data!''), d)"
    by (simp add: updatePassword_def badRequest_def)
  have 2: "password \<noteq> [] \<and> bcrypt_compare E password (Val h) = Inr True \<longrightarrow>
      updatePassword E salt password i d = (Inl (ApiError 400 ''The same password!''), d)"
    using assms by (simp add: updatePassword_def badRequest_def)
  have 3: "(\<exists>xs ys. users d = xs @ u # ys
                \<and> updatePassword E salt password i d
                  = (Inr \<lparr>ok = True,
                          message = ''User '' @ template (userName u) @ '' successfully updated''\<rparr>,
                     d\<lparr>users := xs @ u\<lparr>passwordHash := Val (createPasswordHash E salt password)\<rparr> # ys\<rparr>))
          \<and> findUserById i (snd (updatePassword E salt password i d))
              = Inr (u\<lparr>passwordHash := Val (createPasswordHash E salt password)\<rparr>)"
    if a: "password \<noteq> [] \<and> bcrypt_compare E password (Val h) = Inr False"
  proof -
    from assms(1) have "find (\<lambda>x. u_id x = i) (users d) = Some u"
      by (simp add: findUserById_def findOne_def split: option.splits)
    then have ui: "u_id u = i" by (auto dest: find_Some_iff [THEN iffD1])
    from a assms(2) have c: "bcrypt_compare E password (passwordHash u) = Inr False"
      and n: "password \<noteq> []" by simp_all
    from updatePassword_commit [OF assms(1) n c, of salt] obtain xs ys where
      h: "users d = xs @ u # ys" "find (\<lambda>x. u_id x = i) xs = None"
         "updatePassword E salt password i d
           = (Inr \<lparr>ok = True,
                   message = ''User '' @ template (userName u) @ '' successfully updated''\<rparr>,
              d\<lparr>users := xs @ u\<lparr>passwordHash := Val (createPasswordHash E salt password)\<rparr> # ys\<rparr>)"
      by blast
    from h(2,3) ui have "findUserById i (snd (updatePassword E salt password i d))
        = Inr (u\<lparr>passwordHash := Val (createPasswordHash E salt password)\<rparr>)"
      by (simp add: findUserById_def findOne_def find_prefix_None)
    with h(1,3) show ?thesis by blast
  qed
  have 4: "\<exists>b. bcrypt_compare E password (Val h) = Inr b" by simp
  from 1 2 3 4 show ?thesis by blast
qed

theorem updatePassword_cases_witness:
  "findUserById 2 test_db = Inr pending \<and> passwordHash pending = Val ''s1abc''
   \<and> updatePassword test_env ''s2'' '''' 2 test_db = (Inl (ApiError 400 ''No data!''), test_db)
   \<and> bcrypt_compare test_env ''abc'' (Val ''s1abc'') = Inr True
   \<and> updatePassword test_env ''s2'' ''abc'' 2 test_db
       = (Inl (ApiError 400 ''The same password!''), test_db)
   \<and> bcrypt_compare test_env ''abd'' (Val ''s1abc'') = Inr False
   \<and> updatePassword test_env ''s2'' ''abd'' 2 test_db
       = (Inr \<lparr>ok = True, message = ''User Bob successfully updated''\<rparr>,
          test_db\<lparr>users := [guest, pending\<lparr>passwordHash := Val ''s2abd''\<rparr>]\<rparr>)"
proof -
  have f: "findUserById 2 test_db = Inr pending"
    by (simp add: findUserById_def findOne_def test_db_def guest_def pending_def new_user_def)
  have p: "passwordHash pending = Val ''s1abc''"
    by (simp add: pending_def new_user_def)
  from f p updatePassword_cases [OF f p, of "''''" test_env "''s2''"]
    updatePassword_cases [OF f p, of "''abc''" test_env "''s2''"]
    updatePassword_cases [OF f p, of "''abd''" test_env "''s2''"]
  show ?thesis
    by (simp add: updatePassword_def findUserById_def findOne_def createPasswordHash_def
        apply_update_def test_env_def test_db_def guest_def pending_def new_user_def)
qed

text \<open>
  The claim as stated fails at the empty password: it does not compare true with the
  stored hash of Bob, yet \<open>updatePassword\<close> rejects it and the stored hash stays.
\<close>

theorem updatePassword_empty_counterexample:
  "findUserById 2 test_db = Inr pending
   \<and> bcrypt_compare test_env '''' (passwordHash pending) = Inr False
   \<and> updatePassword test_env ''s2'' '''' 2 test_db = (Inl (ApiError 400 ''No data!''), test_db)
   \<and> passwordHash pending \<noteq> Val (createPasswordHash test_env ''s2'' '''')"
  by (simp add: updatePassword_def badRequest_def findUserById_def findOne_def
      createPasswordHash_def test_env_def test_db_def guest_def pending_def new_user_def)

subsection \<open>updateProfile\<close>

lemma apply_profile_update:
  "apply_update (profile_update b) u =
     u\<lparr>userName := (if body_userName b = Undefined then userName u else body_userName b),
       email := (if body_email b = Undefined then email u else body_email b),
       address := (if body_address b = Undefined then address u else body_address b)\<rparr>"
  by (simp add: apply_update_def profile_update_def)

text \<open>
  C6 (as amended): with a body, \<open>updateProfile\<close> replaces the first account with the
  given id by itself with each of \<open>userName\<close>, \<open>email\<close> and \<open>address\<close> that the
  body supplies set to the supplied value (null included) and each that the body leaves
  absent kept as it was, every other field, account and order being as before; and when no
  account has the id the call fails with the error 403 "Modified forbidden" and changes
  nothing.
\<close>

theorem updateProfile_partial_patch:
  "(findOne (\<lambda>x. u_id x = i) (users d) = Some u \<longrightarrow>
      (\<exists>xs ys. users d = xs @ u # ys \<and> findOne (\<lambda>x. u_id x = i) xs = None
         \<and> updateProfile (Some b) i d =
             (Inr (u\<lparr>userName := (if body_userName b = Undefined then userName u
                                   else body_userName b),
                     email := (if body_email b = Undefined then email u else body_email b),
                     address := (if body_address b = Undefined then address u
                                 else body_address b)\<rparr>,
                   ''User ''
                   @ template (if body_userName b = Undefined then userName u
                               else body_userName b)
                   @ '' successfully updated''),
              d\<lparr>users := xs
                 @ u\<lparr>userName := (if body_userName b = Undefined then userName u
                                    else body_userName b),
                      email := (if body_email b = Undefined then email u else body_email b),
                      address := (if body_address b = Undefined then address u
                                  else body_address b)\<rparr>
                 # ys\<rparr>)))
   \<and> (findOne (\<lambda>x. u_id x = i) (users d) = None \<longrightarrow>
        updateProfile (Some b) i d = (Inl (ApiError 403 ''Modified forbidden''), d))"
proof (intro conjI impI)
  assume "findOne (\<lambda>x. u_id x = i) (users d) = Some u"
  then have "find (\<lambda>x. u_id x = i) (users d) = Some u" by (simp add: findOne_def)
  from findOneAndUpdate_split [OF this, of "apply_update (profile_update b)"] obtain xs ys where
    h: "users d = xs @ u # ys" "find (\<lambda>x. u_id x = i) xs = None"
       "findOneAndUpdate (\<lambda>x. u_id x = i) (apply_update (profile_update b)) (users d)
          = (Some (apply_update (profile_update b) u),
             xs @ apply_update (profile_update b) u # ys)"
    by blast
  then show "\<exists>xs ys. users d = xs @ u # ys \<and> findOne (\<lambda>x. u_id x = i) xs = None
         \<and> updateProfile (Some b) i d =
             (Inr (u\<lparr>userName := (if body_userName b = Undefined then userName u
                                   else body_userName b),
                     email := (if body_email b = Undefined then email u else body_email b),
                     address := (if body_address b = Undefined then address u
                                 else body_address b)\<rparr>,
                   ''User ''
                   @ template (if body_userName b = Undefined then userName u
                               else body_userName b)
                   @ '' successfully updated''),
              d\<lparr>users := xs
                 @ u\<lparr>userName := (if body_userName b = Undefined then userName u
                                    else body_userName b),
                      email := (if body_email b = Undefined then email u else body_email b),
                      address := (if body_address b = Undefined then address u
                                  else body_address b)\<rparr>
                 # ys\<rparr>)"
    by (intro exI [of _ xs] exI [of _ ys])
       (simp add: updateProfile_def findOne_def apply_profile_update)
next
  assume "findOne (\<lambda>x. u_id x = i) (users d) = None"
  then show "updateProfile (Some b) i d = (Inl (ApiError 403 ''Modified forbidden''), d)"
    by (simp add: updateProfile_def findOne_def findOneAndUpdate_no_match forbidden_def)
qed

theorem updateProfile_partial_patch_witness:
  "updateProfile (Some test_body) 2 test_db
     = (Inr (pending\<lparr>userName := Val ''Bo'', address := Null\<rparr>,
             ''User Bo successfully updated''),
        test_db\<lparr>users := [guest, pending\<lparr>userName := Val ''Bo'', address := Null\<rparr>]\<rparr>)
   \<and> updateProfile (Some test_body) 5 test_db = (Inl (ApiError 403 ''Modified forbidden''), test_db)"
  using updateProfile_partial_patch [of 2 test_db pending test_body]
    updateProfile_partial_patch [of 5 test_db pending test_body]
  by (simp add: updateProfile_def profile_update_def apply_update_def forbidden_def
      test_body_def test_db_def guest_def pending_def new_user_def)

text \<open>
  The claim as stated fails at a body without an email: the account of Bob keeps its
  email after the call, where the claim has it become null.
\<close>

theorem updateProfile_absent_counterexample:
  "body_email test_body = Undefined
   \<and> findUserById 2 test_db = Inr pending
   \<and> email pending = Val ''b@c.d''
   \<and> fst (updateProfile (Some test_body) 2 test_db)
       = Inr (pending\<lparr>userName := Val ''Bo'', address := Null\<rparr>,
              ''User Bo successfully updated'')
   \<and> email (pending\<lparr>userName := Val ''Bo'', address := Null\<rparr>) = Val ''b@c.d''
   \<and> email (pending\<lparr>userName := Val ''Bo'', address := Null\<rparr>) \<noteq> Null"
  by (simp add: updateProfile_def profile_update_def apply_update_def findUserById_def
      findOne_def test_body_def test_db_def guest_def pending_def new_user_def)

subsection \<open>resetPassword\<close>

text \<open>
  The token that \<open>resetPassword\<close> issues is the hexadecimal form of 16 bytes of the
  random source: 32 characters, hexadecimal digits only.
\<close>

lemma reset_token_shape:
  "length (toString_hex (randomBytes 16 rnd)) = 32
   \<and> set (toString_hex (randomBytes 16 rnd)) \<subseteq> set ''0123456789abcdef''"
  using toString_hex_chars [of "randomBytes 16 rnd"]
  by (simp add: toString_hex_length randomBytes_def hex_digits_def)

text \<open>
  Both assignments of the update of \<open>resetPassword\<close> are to paths that the schema does
  not declare, so the store writes nothing: whatever the result of the call, the database
  after it is the database before it.
\<close>

lemma apply_issue_update: "apply_update (issue_update t now) u = u"
  by (simp add: apply_update_def issue_update_def)

lemma findOneAndUpdate_id: "snd (findOneAndUpdate P (\<lambda>u. u) ds) = ds"
  by (induction ds) (auto split: prod.splits)

lemma resetPassword_stores_nothing:
  "snd (resetPassword rnd now mailConfig email' d) = d"
proof -
  have e: "apply_update (issue_update t now) = (\<lambda>u. u)" for t
    by (rule ext) (rule apply_issue_update)
  have "snd (findOneAndUpdate (\<lambda>u. eq_match email' (email u)) (\<lambda>u. u) (users d)) = users d"
    by (rule findOneAndUpdate_id)
  then show ?thesis
    by (cases "findOneAndUpdate (\<lambda>u. eq_match email' (email u)) (\<lambda>u. u) (users d)")
       (auto simp: resetPassword_def Let_def e split: option.splits)
qed

text \<open>
  C7 (not met by the code): the token issued is to be stored on the account with the
  expiry of the time of the call plus 3600 * 1000 milliseconds. On the database of one
  account with the email \<^verbatim>\<open>c@d.e\<close>, the call at the time 1000 issues the token of 32
  hexadecimal digits and mails it, and the account after the call has neither
  \<^verbatim>\<open>reset.token\<close> nor \<^verbatim>\<open>reset.expire\<close>, where the claim has the token and the
  expiry 3601000 stored.
\<close>

theorem resetPassword_token_not_stored:
  "toString_hex (randomBytes 16 test_rnd) = ''031425364758697a8b9cadbecfe0f102''
   \<and> resetPassword test_rnd 1000 test_mail (Val ''c@d.e'') mail_db
       = (Inr \<lparr>delivery = ''250 OK 031425364758697a8b9cadbecfe0f102'',
               delivery_message = ''Email successfully sent to c@d.e''\<rparr>,
          mail_db)
   \<and> findUserById 3 mail_db = Inr subscriber
   \<and> reset_token subscriber = Undefined
   \<and> reset_expire subscriber = Undefined"
proof -
  have t: "toString_hex (randomBytes 16 test_rnd) = ''031425364758697a8b9cadbecfe0f102''"
    by code_simp
  have r: "resetPassword test_rnd 1000 test_mail (Val ''c@d.e'') mail_db
       = (Inr \<lparr>delivery = ''250 OK 031425364758697a8b9cadbecfe0f102'',
               delivery_message = ''Email successfully sent to c@d.e''\<rparr>,
          mail_db)"
    by (simp add: resetPassword_def findOne_def Let_def t apply_issue_update test_mail_def
        mail_db_def subscriber_def new_user_def)
  have "findUserById 3 mail_db = Inr subscriber \<and> reset_token subscriber = Undefined
     \<and> reset_expire subscriber = Undefined"
    by (simp add: findUserById_def findOne_def mail_db_def subscriber_def new_user_def)
  with t r show ?thesis by simp
qed

subsection \<open>deleteUser\<close>

text \<open>
  C9: when no account has the id, \<open>deleteUser\<close> fails with the status 404 and changes
  nothing; when an account has it, the call returns the number of orders deleted and
  the count 1 of accounts deleted, removes every order of that account id and the first
  account with the id; and when ids are distinct, as the store keeps them, a lookup of the
  id after the call fails with the status 404.
\<close>

theorem deleteUser_cases:
  "(findOne (\<lambda>x. u_id x = i) (users d) = None \<longrightarrow>
      (\<exists>m. deleteUser i d = (Inl (ApiError 404 m), d)))
   \<and> (findOne (\<lambda>x. u_id x = i) (users d) = Some u \<longrightarrow>
      (\<exists>xs ys. users d = xs @ u # ys \<and> findOne (\<lambda>x. u_id x = i) xs = None
         \<and> deleteUser i d =
             (Inr (length (filter (\<lambda>x. userId x = i) (orders d)), 1),
              \<lparr>users = xs @ ys, orders = filter (\<lambda>x. userId x \<noteq> i) (orders d)\<rparr>)))
   \<and> (findOne (\<lambda>x. u_id x = i) (users d) = Some u \<and> distinct (map u_id (users d)) \<longrightarrow>
      (\<exists>m. findUserById i (snd (deleteUser i d)) = Inl (ApiError 404 m)))"
proof (intro conjI impI)
  assume "findOne (\<lambda>x. u_id x = i) (users d) = None"
  then show "\<exists>m. deleteUser i d = (Inl (ApiError 404 m), d)"
    by (simp add: deleteUser_def findUserById_def notFound_def)
next
  assume "findOne (\<lambda>x. u_id x = i) (users d) = Some u"
  then have f: "find (\<lambda>x. u_id x = i) (users d) = Some u" by (simp add: findOne_def)
  from deleteOne_split [OF f] obtain xs ys where
    h: "users d = xs @ u # ys" "find (\<lambda>x. u_id x = i) xs = None"
       "deleteOne (\<lambda>x. u_id x = i) (users d) = (1, xs @ ys)"
    by blast
  with f show "\<exists>xs ys. users d = xs @ u # ys \<and> findOne (\<lambda>x. u_id x = i) xs = None
         \<and> deleteUser i d =
             (Inr (length (filter (\<lambda>x. userId x = i) (orders d)), 1),
              \<lparr>users = xs @ ys, orders = filter (\<lambda>x. userId x \<noteq> i) (orders d)\<rparr>)"
    by (intro exI [of _ xs] exI [of _ ys])
       (simp add: deleteUser_def findUserById_def findOne_def deleteMany_def)
next
  assume a: "findOne (\<lambda>x. u_id x = i) (users d) = Some u \<and> distinct (map u_id (users d))"
  then have f: "find (\<lambda>x. u_id x = i) (users d) = Some u" by (simp add: findOne_def)
  then have ui: "u_id u = i" by (auto dest: find_Some_iff [THEN iffD1])
  from deleteOne_split [OF f] obtain xs ys where
    h: "users d = xs @ u # ys" "deleteOne (\<lambda>x. u_id x = i) (users d) = (1, xs @ ys)"
    by blast
  from a h(1) ui have "i \<notin> set (map u_id (xs @ ys))" by auto
  then have "find (\<lambda>x. u_id x = i) (xs @ ys) = None" by (rule find_id_absent)
  with f h show "\<exists>m. findUserById i (snd (deleteUser i d)) = Inl (ApiError 404 m)"
    by (simp add: deleteUser_def findUserById_def findOne_def deleteMany_def notFound_def)
qed

theorem deleteUser_cases_witness:
  "deleteUser 5 test_db = (Inl (ApiError 404 ''referenced account does not exist''), test_db)
   \<and> distinct (map u_id (users test_db))
   \<and> deleteUser 2 test_db = (Inr (2, 1), \<lparr>users = [guest], orders = [\<lparr>o_id = 2, userId = 1\<rparr>]\<rparr>)
   \<and> findUserById 2 (snd (deleteUser 2 test_db))
       = Inl (ApiError 404 ''referenced account does not exist'')"
  using deleteUser_cases [of 5 test_db pending] deleteUser_cases [of 2 test_db pending]
  by (simp add: deleteUser_def findUserById_def findOne_def deleteMany_def notFound_def
      test_db_def guest_def pending_def new_user_def)


end
